theory Spec2Isabelle
  imports Main
begin

section \<open>The Shiny viewer module (SessionShinyViewer.cpp)\<close>

subsection \<open>Collaborators of the module\<close>

text \<open>
  The module talks to the R runtime through \<^verbatim>\<open>r::sexp::isString\<close>,
  \<^verbatim>\<open>r::sexp::length\<close>, \<^verbatim>\<open>r::sexp::safeAsString\<close> and the constant
  \<^verbatim>\<open>R_NilValue\<close>. None of them is defined in the module, so the embedding takes
  them as a parameter: a record of the four, over an arbitrary type of R objects.
\<close>

record 'sexp r_sexp =
  isString :: "'sexp \<Rightarrow> bool"
  sexp_length :: "'sexp \<Rightarrow> int"
  safeAsString :: "'sexp \<Rightarrow> string"
  R_NilValue :: "'sexp"

text \<open>
  \<^verbatim>\<open>json::Object\<close> is a map from member names to values; the module stores strings only.
\<close>

datatype json_value = JsonString string

type_synonym json_object = "string \<rightharpoonup> json_value"

text \<open>
  \<^verbatim>\<open>client_events::kShinyViewer\<close> is the only event type the module uses.
\<close>

datatype client_event_type = kShinyViewer

record ClientEvent =
  event_type :: client_event_type
  event_data :: json_object

text \<open>
  The state the module reads and writes: its two file-level variables and the queue that
  \<^verbatim>\<open>module_context::enqueClientEvent\<close> appends to. The function is not defined in
  the module; it is taken to append the event to the queue.
\<close>

record session_state =
  s_currentAppUrl :: string
  s_currentAppPath :: string
  clientEvents :: "ClientEvent list"

definition enqueClientEvent :: "ClientEvent \<Rightarrow> session_state \<Rightarrow> session_state" where
  "enqueClientEvent event st = st\<lparr>clientEvents := clientEvents st @ [event]\<rparr>"

text \<open>
  How a call of the routine ends: it returns a value to R, or it leaves through an R
  error with a message and returns nothing.
\<close>

datatype 'sexp outcome = Returned 'sexp | RError string

text \<open>
  \<^verbatim>\<open>r::exec::error\<close> is not defined in the module either. It raises the R error
  with the message it is given. \<open>rs_shinyviewer\<close> is registered as a routine called
  from R (\<^verbatim>\<open>addCallMethod\<close> in \<^verbatim>\<open>initialize\<close>), and in such a routine raising
  an R error is a jump out of the routine: control does not come back to the caller of
  \<^verbatim>\<open>r::exec::error\<close>. The exception is thrown and caught first so that the block's
  local objects are gone before the jump. The session is left as it is.
\<close>

definition r_exec_error :: "string \<Rightarrow> session_state \<Rightarrow> 'sexp outcome \<times> session_state" where
  "r_exec_error message st = (RError message, st)"

subsection \<open>loadApp and rs_shinyviewer\<close>

definition loadApp :: "string \<Rightarrow> string \<Rightarrow> session_state \<Rightarrow> session_state" where
  "loadApp url path st =
     (let st1 = st\<lparr>s_currentAppUrl := url\<rparr>;
          st2 = st1\<lparr>s_currentAppPath := path\<rparr>;
          dataJson0 = Map.empty(''url'' \<mapsto> JsonString (s_currentAppUrl st2));
          dataJson1 = dataJson0(''path'' \<mapsto> JsonString (s_currentAppPath st2));
          dataJson = dataJson1(''state'' \<mapsto> JsonString ''started'');
          event = \<lparr>event_type = kShinyViewer, event_data = dataJson\<rparr>
      in enqueClientEvent event st2)"

text \<open>
  The body of the \<^verbatim>\<open>try\<close> block: \<open>Inl\<close> carries the message of the
  \<^verbatim>\<open>RErrorException\<close> thrown, \<open>Inr\<close> the state after \<open>loadApp\<close>.
\<close>

definition rs_shinyviewer_try ::
  "'sexp r_sexp \<Rightarrow> 'sexp \<Rightarrow> 'sexp \<Rightarrow> session_state \<Rightarrow> string + session_state" where
  "rs_shinyviewer_try r urlSEXP pathSEXP st =
     (if \<not> isString r urlSEXP \<or> sexp_length r urlSEXP \<noteq> 1
      then Inl ''url must be a single element character vector.''
      else if \<not> isString r pathSEXP \<or> sexp_length r pathSEXP \<noteq> 1
      then Inl ''path must be a single element character vector.''
      else Inr (loadApp (safeAsString r urlSEXP) (safeAsString r pathSEXP) st))"

text \<open>
  The whole function: the \<^verbatim>\<open>catch\<close> clause passes the message to
  \<^verbatim>\<open>r::exec::error\<close>, which ends the call; the statement after the
  \<^verbatim>\<open>try\<close>, \<^verbatim>\<open>return R_NilValue\<close>, is reached when nothing was thrown.
\<close>

definition rs_shinyviewer ::
  "'sexp r_sexp \<Rightarrow> 'sexp \<Rightarrow> 'sexp \<Rightarrow> session_state
     \<Rightarrow> 'sexp outcome \<times> session_state" where
  "rs_shinyviewer r urlSEXP pathSEXP st =
     (case rs_shinyviewer_try r urlSEXP pathSEXP st of
        Inl message \<Rightarrow> r_exec_error message st
      | Inr st' \<Rightarrow> (Returned (R_NilValue r), st'))"

text \<open>An argument the function accepts: a character vector with one element.\<close>

definition single_string :: "'sexp r_sexp \<Rightarrow> 'sexp \<Rightarrow> bool" where
  "single_string r x = (isString r x \<and> sexp_length r x = 1)"

text \<open>
  The message of the error raised when an argument is refused: the url is checked first.
\<close>

definition error_message :: "'sexp r_sexp \<Rightarrow> 'sexp \<Rightarrow> string" where
  "error_message r urlSEXP =
     (if single_string r urlSEXP then ''path must be a single element character vector.''
      else ''url must be a single element character vector.'')"

text \<open>The event \<open>loadApp\<close> builds for a url and a path.\<close>

definition started_event :: "string \<Rightarrow> string \<Rightarrow> ClientEvent" where
  "started_event url path =
     \<lparr>event_type = kShinyViewer,
      event_data = [''url'' \<mapsto> JsonString url, ''path'' \<mapsto> JsonString path,
                    ''state'' \<mapsto> JsonString ''started'']\<rparr>"

subsection \<open>A small R runtime to run the module on\<close>

datatype r_object = RNull | RCharacter "string list" | RInteger "int list"

definition example_r :: "r_object r_sexp" where
  "example_r =
     \<lparr>isString = (\<lambda>x. case x of RCharacter _ \<Rightarrow> True | _ \<Rightarrow> False),
      sexp_length = (\<lambda>x. case x of RNull \<Rightarrow> 0 | RCharacter xs \<Rightarrow> int (length xs)
                                | RInteger xs \<Rightarrow> int (length xs)),
      safeAsString = (\<lambda>x. case x of RCharacter (s # _) \<Rightarrow> s | _ \<Rightarrow> ''''),
      R_NilValue = RNull\<rparr>"

text \<open>A session in which an application is already being viewed.\<close>

definition viewing_session :: session_state where
  "viewing_session =
     \<lparr>s_currentAppUrl = ''http://127.0.0.1:1111'', s_currentAppPath = ''/srv/old'',
      clientEvents = [started_event ''http://127.0.0.1:1111'' ''/srv/old'']\<rparr>"

section \<open>The process supervisor (Process.hpp)\<close>

subsection \<open>What the header declares\<close>

record Pseudoterminal =
  cols :: int
  rows :: int

text \<open>
  \<^verbatim>\<open>ProcessOptions\<close> on posix. \<^verbatim>\<open>onAfterFork\<close> runs inside the child and is left
  out; \<^verbatim>\<open>Options\<close> is a list of name and value pairs, \<^verbatim>\<open>FilePath\<close> a string.
\<close>

record ProcessOptions =
  environment :: "(string \<times> string) list option"
  terminateChildren :: bool
  detachSession :: bool
  pseudoterminal :: "Pseudoterminal option"
  redirectStdErrToStdOut :: bool
  workingDir :: string

definition default_ProcessOptions :: ProcessOptions where
  "default_ProcessOptions =
     \<lparr>environment = None, terminateChildren = False, detachSession = False,
      pseudoterminal = None, redirectStdErrToStdOut = False, workingDir = ''''\<rparr>"

text \<open>
  \<^verbatim>\<open>ProcessCallbacks\<close>: every member is a \<^verbatim>\<open>boost::function\<close> that may be empty.
  What a handler does is the caller's code, so the record keeps for each member whether
  it is set; the value \<^verbatim>\<open>onContinue\<close> returns comes with each poll (see below).
\<close>

record ProcessCallbacks =
  onStarted :: bool
  onContinue :: bool
  onStdout :: bool
  onStderr :: bool
  onConsoleOutputSnapshot :: bool
  onError :: bool
  onExit :: bool

text \<open>A callback invocation, with the arguments the header gives each callback.\<close>

datatype callback_event =
    OnStarted
  | OnContinue
  | OnStdout string
  | OnStderr string
  | OnConsoleOutputSnapshot string
  | OnError
  | OnExit int

subsection \<open>The supervisor behind the declarations\<close>

text \<open>
  Modelled from the spec: the error taxonomy of the subsystem (section 7); the header
  only names the class \<^verbatim>\<open>Error\<close>.
\<close>

datatype error = LaunchError | IOError | TimeoutError | UnsupportedOperationError

text \<open>
  Modelled from the spec: the lifecycle states of a child process handle (section 4.2).
  The header keeps the supervisor's state behind \<^verbatim>\<open>struct Impl\<close>, which is not
  part of the sources.
\<close>

datatype lifecycle = Created | Starting | Running | Draining | Exited

text \<open>
  Modelled from the spec: the child process handle of section 3, which is not part of
  the sources. \<open>call\<close> is the number of the run call that created the handle,
  \<open>exitStatus\<close> the status kept while draining, \<open>terminated\<close> whether
  \<open>terminate\<close> was called on it.
\<close>

record handle =
  call :: nat
  state :: lifecycle
  started :: bool
  options :: ProcessOptions
  callbacks :: ProcessCallbacks
  bufferedOut :: string
  bufferedErr :: string
  exitStatus :: int
  terminated :: bool

text \<open>
  Modelled from the spec: the supervisor of sections 3 and 4.3, which the header hides
  behind \<^verbatim>\<open>pImpl_\<close>: the registry in insertion order, the number of run calls made
  so far, and every callback invoked so far with the run call it belongs to.
\<close>

record supervisor =
  registry :: "handle list"
  calls :: nat
  invoked :: "(nat \<times> callback_event) list"

definition new_supervisor :: supervisor where
  "new_supervisor = \<lparr>registry = [], calls = 0, invoked = []\<rparr>"

text \<open>
  Modelled from the spec: what one poll step of section 4.2 reads, none of which the
  sources implement. The operating system and the caller's handlers present to one
  handle during one poll: the bytes available on the output streams (or the pty),
  whether reading fails, what \<^verbatim>\<open>onContinue\<close> returns, the exit status if the
  child has ended, and the bytes still unread when the exit is seen. What a handler does
  through \<^verbatim>\<open>ProcessOperations\<close> acts on the child, and shows in what later polls
  observe.
\<close>

record observation =
  availableOut :: string
  availableErr :: string
  readFails :: bool
  continueResult :: bool
  exited :: "int option"
  unreadOut :: string
  unreadErr :: string

definition quiet :: observation where
  "quiet = \<lparr>availableOut = [], availableErr = [], readFails = False,
             continueResult = True, exited = None, unreadOut = [], unreadErr = []\<rparr>"

text \<open>
  Modelled from the spec: every callback is optional, and an absent one is a no-op
  (section 3).
\<close>

definition fire :: "bool \<Rightarrow> callback_event \<Rightarrow> callback_event list" where
  "fire handler_set e = (if handler_set then [e] else [])"

text \<open>
  Modelled from the spec: \<^verbatim>\<open>ProcessOperations::terminate\<close> (section 4.1, section 5):
  a request; the exit is seen by a later poll.
\<close>

definition terminate :: "handle \<Rightarrow> handle" where
  "terminate h = h\<lparr>terminated := True\<rparr>"

text \<open>
  Modelled from the spec: delivery of output (section 4.2, step a; section 3,
  Pseudoterminal): two pipes deliver through \<^verbatim>\<open>onStdout\<close> and \<^verbatim>\<open>onStderr\<close>, a pty
  has one channel and no separate stderr and delivers through
  \<^verbatim>\<open>onConsoleOutputSnapshot\<close>.
\<close>

definition deliver :: "handle \<Rightarrow> string \<Rightarrow> string \<Rightarrow> callback_event list" where
  "deliver h out err =
     (case pseudoterminal (options h) of
        Some _ \<Rightarrow>
          fire (onConsoleOutputSnapshot (callbacks h) \<and> out \<noteq> []) (OnConsoleOutputSnapshot out)
      | None \<Rightarrow>
          fire (onStdout (callbacks h) \<and> out \<noteq> []) (OnStdout out) @
          fire (onStderr (callbacks h) \<and> err \<noteq> []) (OnStderr err))"

text \<open>
  Modelled from the spec: step (a) of a running handle's poll and the error path of
  section 4.2: an I/O error goes to \<^verbatim>\<open>onError\<close>, and without a handler the child
  is terminated.
\<close>

definition read_streams :: "observation \<Rightarrow> handle \<Rightarrow> callback_event list \<times> handle" where
  "read_streams ob h =
     (if readFails ob
      then (if onError (callbacks h) then ([OnError], h) else ([], terminate h))
      else (deliver h (bufferedOut h @ availableOut ob) (bufferedErr h @ availableErr ob),
            h\<lparr>bufferedOut := [], bufferedErr := []\<rparr>))"

text \<open>
  Modelled from the spec: step (b): \<^verbatim>\<open>onContinue\<close> is invoked, and the child is
  terminated when it returns false.
\<close>

definition continue_step :: "observation \<Rightarrow> handle \<Rightarrow> callback_event list \<times> handle" where
  "continue_step ob h =
     (if onContinue (callbacks h)
      then ([OnContinue], if continueResult ob then h else terminate h)
      else ([], h))"

text \<open>
  Modelled from the spec: step (c) and the states Draining and Exited: when the exit is
  seen with output still unread the handle drains first; otherwise \<^verbatim>\<open>onExit\<close>
  fires and the handle leaves the registry (\<open>None\<close>).
\<close>

definition check_exit :: "observation \<Rightarrow> handle \<Rightarrow> callback_event list \<times> handle option" where
  "check_exit ob h =
     (case exited ob of
        None \<Rightarrow> ([], Some h)
      | Some status \<Rightarrow>
          if unreadOut ob = [] \<and> unreadErr ob = []
          then (fire (onExit (callbacks h)) (OnExit status), None)
          else ([], Some (h\<lparr>state := Draining, bufferedOut := unreadOut ob,
                              bufferedErr := unreadErr ob, exitStatus := status\<rparr>)))"

text \<open>
  Modelled from the spec: one poll step of one handle, by lifecycle state (section 4.2).
\<close>

definition poll_handle :: "observation \<Rightarrow> handle \<Rightarrow> callback_event list \<times> handle option" where
  "poll_handle ob h =
     (case state h of
        Created \<Rightarrow> ([], Some h)
      | Starting \<Rightarrow>
          (fire (onStarted (callbacks h)) OnStarted,
           Some (h\<lparr>state := Running, started := True\<rparr>))
      | Running \<Rightarrow>
          (let (ev_a, h1) = read_streams ob h;
               (ev_b, h2) = continue_step ob h1;
               (ev_c, r) = check_exit ob h2
           in (ev_a @ ev_b @ ev_c, r))
      | Draining \<Rightarrow>
          (deliver h (bufferedOut h) (bufferedErr h) @
             fire (onExit (callbacks h)) (OnExit (exitStatus h)),
           None)
      | Exited \<Rightarrow> ([], None))"

text \<open>
  Modelled from the spec: \<^verbatim>\<open>poll\<close> advances every registered handle by one step,
  in registry order. The observations come in the same order; a handle with none left
  sees a quiet child.
\<close>

fun poll_all ::
  "handle list \<Rightarrow> observation list \<Rightarrow> (nat \<times> callback_event) list \<times> handle list" where
  "poll_all [] obs = ([], [])"
| "poll_all (h # hs) obs =
     (let (ev, r) = poll_handle (case obs of [] \<Rightarrow> quiet | ob # _ \<Rightarrow> ob) h;
          (evs, hs') = poll_all hs (tl obs)
      in (map (Pair (call h)) ev @ evs,
          (case r of None \<Rightarrow> hs' | Some h' \<Rightarrow> h' # hs')))"

text \<open>
  Modelled from the spec: \<^verbatim>\<open>ProcessSupervisor::poll\<close> (section 4.3): true iff a
  handle remains registered afterwards.
\<close>

definition poll :: "observation list \<Rightarrow> supervisor \<Rightarrow> bool \<times> supervisor" where
  "poll obs s =
     (let (evs, hs') = poll_all (registry s) obs
      in (hs' \<noteq> [], s\<lparr>registry := hs', invoked := invoked s @ evs\<rparr>))"

text \<open>
  Modelled from the spec: the run calls of section 4.3. \<open>created\<close> says whether the
  operating system creates the process. The inputs are validated, a handle is built in
  state Created, the process is created, and the handle is registered in state
  Starting; when validation or process creation fails the call returns a launch error
  and registers nothing.
\<close>

definition launch ::
  "bool \<Rightarrow> string \<Rightarrow> ProcessOptions \<Rightarrow> ProcessCallbacks \<Rightarrow> supervisor
     \<Rightarrow> (error + unit) \<times> supervisor" where
  "launch created what opts cbs s =
     (let h = \<lparr>call = calls s, state = Created, started = False, options = opts,
               callbacks = cbs, bufferedOut = [], bufferedErr = [], exitStatus = - 1,
               terminated = False\<rparr>;
          s1 = s\<lparr>calls := Suc (calls s)\<rparr>
      in if what = [] then (Inl LaunchError, s1)
         else if \<not> created then (Inl LaunchError, s1)
         else (Inr (), s1\<lparr>registry := registry s @ [h\<lparr>state := Starting\<rparr>]\<rparr>))"

definition runProgram ::
  "bool \<Rightarrow> string \<Rightarrow> string list \<Rightarrow> ProcessOptions \<Rightarrow> ProcessCallbacks \<Rightarrow> supervisor
     \<Rightarrow> (error + unit) \<times> supervisor" where
  "runProgram created executable args opts cbs s = launch created executable opts cbs s"

definition runCommand ::
  "bool \<Rightarrow> string \<Rightarrow> ProcessOptions \<Rightarrow> ProcessCallbacks \<Rightarrow> supervisor
     \<Rightarrow> (error + unit) \<times> supervisor" where
  "runCommand created command opts cbs s = launch created command opts cbs s"

text \<open>
  Modelled from the spec: \<^verbatim>\<open>hasRunningChildren\<close> and \<^verbatim>\<open>terminateAll\<close>
  (section 4.3).
\<close>

definition hasRunningChildren :: "supervisor \<Rightarrow> bool \<times> supervisor" where
  "hasRunningChildren s = (registry s \<noteq> [], s)"

definition terminateAll :: "supervisor \<Rightarrow> supervisor" where
  "terminateAll s = s\<lparr>registry := map terminate (registry s)\<rparr>"

text \<open>
  Modelled from the spec: \<^verbatim>\<open>wait\<close> (section 4.3): poll after poll until the
  registry is empty or the time is up. \<open>rounds\<close> holds what each poll that fits into
  \<^verbatim>\<open>maxWait\<close> observes; the result is true iff the registry became empty.
\<close>

fun wait :: "observation list list \<Rightarrow> supervisor \<Rightarrow> bool \<times> supervisor" where
  "wait [] s = (registry s = [], s)"
| "wait (obs # rounds) s =
     (if registry s = [] then (True, s)
      else (let (more, s') = poll obs s
            in if more then wait rounds s' else (True, s')))"

text \<open>
  The public operations of \<^verbatim>\<open>ProcessSupervisor\<close> as the header declares them, each
  with what the model above needs as input, and a run of them on a supervisor.
\<close>

datatype operation =
    RunProgram bool string "string list" ProcessOptions ProcessCallbacks
  | RunCommand bool string ProcessOptions ProcessCallbacks
  | HasRunningChildren
  | Poll "observation list"
  | TerminateAll
  | Wait "observation list list"

fun perform :: "operation \<Rightarrow> supervisor \<Rightarrow> supervisor" where
  "perform (RunProgram created executable args opts cbs) s =
     snd (runProgram created executable args opts cbs s)"
| "perform (RunCommand created command opts cbs) s = snd (runCommand created command opts cbs s)"
| "perform HasRunningChildren s = snd (hasRunningChildren s)"
| "perform (Poll obs) s = snd (poll obs s)"
| "perform TerminateAll s = terminateAll s"
| "perform (Wait rounds) s = snd (wait rounds s)"

definition perform_all :: "operation list \<Rightarrow> supervisor \<Rightarrow> supervisor" where
  "perform_all ops s = fold perform ops s"

text \<open>
  Every handle and every callback invoked so far belongs to a run call already made.
\<close>

definition well_numbered :: "supervisor \<Rightarrow> bool" where
  "well_numbered s =
     ((\<forall>h \<in> set (registry s). call h < calls s) \<and>
      (\<forall>e \<in> set (invoked s). fst e < calls s))"

text \<open>Run call \<open>n\<close> was made, has no handle and has had no callback invoked.\<close>

definition silent :: "nat \<Rightarrow> supervisor \<Rightarrow> bool" where
  "silent n s =
     (n < calls s \<and> n \<notin> call ` set (registry s) \<and> n \<notin> fst ` set (invoked s))"

text \<open>A callbacks bag with every handler set, and a child that prints and exits.\<close>

definition every_callback :: ProcessCallbacks where
  "every_callback =
     \<lparr>onStarted = True, onContinue = True, onStdout = True, onStderr = True,
      onConsoleOutputSnapshot = True, onError = True, onExit = True\<rparr>"

definition says_hello_and_exits :: observation where
  "says_hello_and_exits = quiet\<lparr>availableOut := ''hello'', exited := Some 0\<rparr>"

section \<open>Properties of the Shiny viewer module\<close>

lemma loadApp_eq:
  "loadApp url path st =
     st\<lparr>s_currentAppUrl := url, s_currentAppPath := path,
        clientEvents := clientEvents st @ [started_event url path]\<rparr>"
  by (simp add: loadApp_def Let_def enqueClientEvent_def started_event_def)

lemma rs_shinyviewer_try_invalid:
  assumes "\<not> single_string r urlSEXP \<or> \<not> single_string r pathSEXP"
  shows "rs_shinyviewer_try r urlSEXP pathSEXP st = Inl (error_message r urlSEXP)"
  using assms by (auto simp: rs_shinyviewer_try_def single_string_def error_message_def)

lemma rs_shinyviewer_try_valid:
  assumes "single_string r urlSEXP" and "single_string r pathSEXP"
  shows "rs_shinyviewer_try r urlSEXP pathSEXP st =
           Inr (loadApp (safeAsString r urlSEXP) (safeAsString r pathSEXP) st)"
  using assms by (simp add: rs_shinyviewer_try_def single_string_def)

text \<open>
  Claim C10, as the module has it. For every call \<open>rs_shinyviewer url path\<close>: when
  either argument is not a character vector with exactly one element, the call ends in
  an R error (about the url when the url is at fault, about the path otherwise) and
  returns no value, the viewer state (\<open>s_currentAppUrl\<close>, \<open>s_currentAppPath\<close>) stays
  as it was and no client event is enqueued; when both are, the viewer state becomes
  exactly the two strings, exactly one ShinyViewer event with that url, that path and
  state "started" is enqueued, and the call returns \<open>R_NilValue\<close>.
\<close>

theorem rs_shinyviewer_contract:
  fixes r :: "'sexp r_sexp"
  shows
    "(\<not> single_string r urlSEXP \<or> \<not> single_string r pathSEXP \<longrightarrow>
        rs_shinyviewer r urlSEXP pathSEXP st = (RError (error_message r urlSEXP), st)) \<and>
     (single_string r urlSEXP \<and> single_string r pathSEXP \<longrightarrow>
        rs_shinyviewer r urlSEXP pathSEXP st =
          (Returned (R_NilValue r),
           st\<lparr>s_currentAppUrl := safeAsString r urlSEXP,
              s_currentAppPath := safeAsString r pathSEXP,
              clientEvents := clientEvents st @
                [started_event (safeAsString r urlSEXP) (safeAsString r pathSEXP)]\<rparr>))"
proof (intro conjI impI)
  assume bad: "\<not> single_string r urlSEXP \<or> \<not> single_string r pathSEXP"
  show "rs_shinyviewer r urlSEXP pathSEXP st = (RError (error_message r urlSEXP), st)"
    by (simp add: rs_shinyviewer_def rs_shinyviewer_try_invalid [OF bad] r_exec_error_def)
next
  assume ok: "single_string r urlSEXP \<and> single_string r pathSEXP"
  then show "rs_shinyviewer r urlSEXP pathSEXP st =
          (Returned (R_NilValue r),
           st\<lparr>s_currentAppUrl := safeAsString r urlSEXP,
              s_currentAppPath := safeAsString r pathSEXP,
              clientEvents := clientEvents st @
                [started_event (safeAsString r urlSEXP) (safeAsString r pathSEXP)]\<rparr>)"
    by (simp add: rs_shinyviewer_def rs_shinyviewer_try_valid loadApp_eq)
qed

text \<open>
  The theorem at work in the small runtime, on a session that is already viewing an
  application: a call with a url and a path loads the new application and adds its
  event after the old one; a call whose first argument is an integer vector, and a call
  whose second argument has two elements, end in the error and leave the session as it
  was.
\<close>

theorem rs_shinyviewer_contract_witness:
  "single_string example_r (RCharacter [''http://127.0.0.1:4321'']) \<and>
   single_string example_r (RCharacter [''/srv/app'']) \<and>
   rs_shinyviewer example_r (RCharacter [''http://127.0.0.1:4321''])
       (RCharacter [''/srv/app'']) viewing_session =
     (Returned RNull,
      \<lparr>s_currentAppUrl = ''http://127.0.0.1:4321'', s_currentAppPath = ''/srv/app'',
       clientEvents = [started_event ''http://127.0.0.1:1111'' ''/srv/old'',
                       started_event ''http://127.0.0.1:4321'' ''/srv/app'']\<rparr>) \<and>
   \<not> single_string example_r (RInteger [1]) \<and>
   rs_shinyviewer example_r (RInteger [1]) (RCharacter [''/srv/app'']) viewing_session =
     (RError ''url must be a single element character vector.'', viewing_session) \<and>
   \<not> single_string example_r (RCharacter [''/srv/app'', ''/srv/other'']) \<and>
   rs_shinyviewer example_r (RCharacter [''http://127.0.0.1:4321''])
       (RCharacter [''/srv/app'', ''/srv/other'']) viewing_session =
     (RError ''path must be a single element character vector.'', viewing_session)"
proof -
  have u: "single_string example_r (RCharacter [''http://127.0.0.1:4321''])"
    by (simp add: single_string_def example_r_def)
  have p: "single_string example_r (RCharacter [''/srv/app''])"
    by (simp add: single_string_def example_r_def)
  have i: "\<not> single_string example_r (RInteger [1])"
    by (simp add: single_string_def example_r_def)
  have two: "\<not> single_string example_r (RCharacter [''/srv/app'', ''/srv/other''])"
    by (simp add: single_string_def example_r_def)
  have nil: "R_NilValue example_r = RNull"
    by (simp add: example_r_def)
  have str: "safeAsString example_r (RCharacter [''http://127.0.0.1:4321''])
               = ''http://127.0.0.1:4321''"
    "safeAsString example_r (RCharacter [''/srv/app'']) = ''/srv/app''"
    by (simp_all add: example_r_def)
  note good = rs_shinyviewer_contract
    [of example_r "RCharacter [''http://127.0.0.1:4321'']" "RCharacter [''/srv/app'']"
      viewing_session]
  note bad_url = rs_shinyviewer_contract
    [of example_r "RInteger [1]" "RCharacter [''/srv/app'']" viewing_session]
  note bad_path = rs_shinyviewer_contract
    [of example_r "RCharacter [''http://127.0.0.1:4321'']"
      "RCharacter [''/srv/app'', ''/srv/other'']" viewing_session]
  have g: "rs_shinyviewer example_r (RCharacter [''http://127.0.0.1:4321''])
       (RCharacter [''/srv/app'']) viewing_session =
     (Returned RNull,
      \<lparr>s_currentAppUrl = ''http://127.0.0.1:4321'', s_currentAppPath = ''/srv/app'',
       clientEvents = [started_event ''http://127.0.0.1:1111'' ''/srv/old'',
                       started_event ''http://127.0.0.1:4321'' ''/srv/app'']\<rparr>)"
    using good u p by (simp add: nil str viewing_session_def)
  have b1: "rs_shinyviewer example_r (RInteger [1]) (RCharacter [''/srv/app''])
              viewing_session =
     (RError ''url must be a single element character vector.'', viewing_session)"
    using bad_url i by (simp add: error_message_def)
  have b2: "rs_shinyviewer example_r (RCharacter [''http://127.0.0.1:4321''])
       (RCharacter [''/srv/app'', ''/srv/other'']) viewing_session =
     (RError ''path must be a single element character vector.'', viewing_session)"
    using bad_path two u by (simp add: error_message_def)
  show ?thesis using u p i two g b1 b2 by simp
qed

text \<open>
  The claim as first stated has the call return \<open>R_NilValue\<close> also when an argument is
  refused. It does not: with an integer vector for the url the call ends in the R error,
  and what comes out of it is not the returned value \<open>R_NilValue\<close>.
\<close>

theorem rs_shinyviewer_refused_returns_counterexample:
  "\<not> single_string example_r (RInteger [1]) \<and>
   fst (rs_shinyviewer example_r (RInteger [1]) (RCharacter [''/srv/app'']) viewing_session)
     = RError ''url must be a single element character vector.'' \<and>
   fst (rs_shinyviewer example_r (RInteger [1]) (RCharacter [''/srv/app'']) viewing_session)
     \<noteq> Returned (R_NilValue example_r)"
  by (simp add: rs_shinyviewer_def rs_shinyviewer_try_def r_exec_error_def
      single_string_def example_r_def)

section \<open>Properties of the supervisor\<close>

lemma read_streams_call: "call (snd (read_streams ob h)) = call h"
  by (simp add: read_streams_def terminate_def)

lemma continue_step_call: "call (snd (continue_step ob h)) = call h"
  by (simp add: continue_step_def terminate_def)

lemma check_exit_call:
  assumes "check_exit ob h = (ev, Some h')"
  shows "call h' = call h"
  using assms by (auto simp: check_exit_def split: option.splits if_splits)

lemma poll_handle_call:
  assumes "poll_handle ob h = (ev, Some h')"
  shows "call h' = call h"
proof (cases "state h")
  case Running
  obtain ev_a h1 where a: "read_streams ob h = (ev_a, h1)" by (cases "read_streams ob h")
  obtain ev_b h2 where b: "continue_step ob h1 = (ev_b, h2)" by (cases "continue_step ob h1")
  obtain ev_c r where c: "check_exit ob h2 = (ev_c, r)" by (cases "check_exit ob h2")
  from assms Running a b c have r: "r = Some h'"
    by (simp add: poll_handle_def)
  have "call h1 = call h" using read_streams_call [of ob h] a by simp
  moreover have "call h2 = call h1" using continue_step_call [of ob h1] b by simp
  moreover have "call h' = call h2" using check_exit_call c r by blast
  ultimately show ?thesis by simp
qed (use assms in \<open>auto simp: poll_handle_def\<close>)

lemma poll_all_calls:
  assumes "poll_all hs obs = (evs, hs')"
  shows "fst ` set evs \<subseteq> call ` set hs \<and> call ` set hs' \<subseteq> call ` set hs"
  using assms
proof (induction hs arbitrary: obs evs hs')
  case Nil
  then show ?case by simp
next
  case (Cons h hs)
  let ?ob = "case obs of [] \<Rightarrow> quiet | ob # _ \<Rightarrow> ob"
  obtain ev r where p: "poll_handle ?ob h = (ev, r)" by (cases "poll_handle ?ob h")
  obtain evs1 hs1 where q: "poll_all hs (tl obs) = (evs1, hs1)"
    by (cases "poll_all hs (tl obs)")
  from Cons.prems p q have evs: "evs = map (Pair (call h)) ev @ evs1"
    and hs': "hs' = (case r of None \<Rightarrow> hs1 | Some h' \<Rightarrow> h' # hs1)"
    by simp_all
  from Cons.IH [OF q] have ih1: "fst ` set evs1 \<subseteq> call ` set hs"
    and ih2: "call ` set hs1 \<subseteq> call ` set hs" by simp_all
  have "fst ` set evs \<subseteq> call ` set (h # hs)"
    using ih1 by (auto simp: evs)
  moreover have "call ` set hs' \<subseteq> call ` set (h # hs)"
  proof (cases r)
    case None
    then show ?thesis using ih2 hs' by auto
  next
    case (Some h')
    then have "call h' = call h" using poll_handle_call p by blast
    then show ?thesis using ih2 hs' Some by auto
  qed
  ultimately show ?case by simp
qed

lemma poll_state:
  "\<exists>evs hs'. poll_all (registry s) obs = (evs, hs') \<and>
     snd (poll obs s) = s\<lparr>registry := hs', invoked := invoked s @ evs\<rparr> \<and>
     fst (poll obs s) = (hs' \<noteq> [])"
  by (cases "poll_all (registry s) obs") (simp add: poll_def)

lemma poll_silent:
  assumes "silent n s"
  shows "silent n (snd (poll obs s))"
proof -
  from poll_state obtain evs hs' where p: "poll_all (registry s) obs = (evs, hs')"
    and s': "snd (poll obs s) = s\<lparr>registry := hs', invoked := invoked s @ evs\<rparr>"
    by blast
  from poll_all_calls [OF p] assms show ?thesis
    by (auto simp: silent_def s')
qed

lemma poll_well_numbered:
  assumes "well_numbered s"
  shows "well_numbered (snd (poll obs s))"
proof -
  from poll_state obtain evs hs' where p: "poll_all (registry s) obs = (evs, hs')"
    and s': "snd (poll obs s) = s\<lparr>registry := hs', invoked := invoked s @ evs\<rparr>"
    by blast
  from poll_all_calls [OF p] have e: "fst ` set evs \<subseteq> call ` set (registry s)"
    and h: "call ` set hs' \<subseteq> call ` set (registry s)" by simp_all
  have "\<forall>x \<in> set hs'. call x < calls s"
    using h assms by (auto simp: well_numbered_def)
  moreover have "\<forall>x \<in> set evs. fst x < calls s"
    using e assms by (auto simp: well_numbered_def)
  ultimately show ?thesis using assms
    by (auto simp: well_numbered_def s')
qed

lemma wait_silent:
  assumes "silent n s"
  shows "silent n (snd (wait rounds s))"
  using assms
proof (induction rounds arbitrary: s)
  case Nil
  then show ?case by simp
next
  case (Cons obs rounds)
  obtain more s' where p: "poll obs s = (more, s')" by (cases "poll obs s")
  have "silent n s'" using poll_silent [OF Cons.prems, of obs] p by simp
  then show ?case using Cons p by simp
qed

lemma wait_well_numbered:
  assumes "well_numbered s"
  shows "well_numbered (snd (wait rounds s))"
  using assms
proof (induction rounds arbitrary: s)
  case Nil
  then show ?case by simp
next
  case (Cons obs rounds)
  obtain more s' where p: "poll obs s = (more, s')" by (cases "poll obs s")
  have "well_numbered s'" using poll_well_numbered [OF Cons.prems, of obs] p by simp
  then show ?case using Cons p by simp
qed

lemma launch_silent:
  assumes "silent n s"
  shows "silent n (snd (launch created what opts cbs s))"
  using assms by (auto simp: silent_def launch_def Let_def)

lemma launch_well_numbered:
  assumes "well_numbered s"
  shows "well_numbered (snd (launch created what opts cbs s))"
  using assms by (auto simp: well_numbered_def launch_def Let_def less_Suc_eq)

lemma terminateAll_calls: "call ` set (registry (terminateAll s)) = call ` set (registry s)"
  by (auto simp: terminateAll_def terminate_def image_iff)

lemma perform_silent:
  assumes "silent n s"
  shows "silent n (perform op s)"
proof (cases op)
  case TerminateAll
  have "invoked (terminateAll s) = invoked s" "calls (terminateAll s) = calls s"
    by (simp_all add: terminateAll_def)
  then show ?thesis using assms TerminateAll terminateAll_calls [of s]
    by (simp add: silent_def)
qed (use assms in \<open>simp_all add: runProgram_def runCommand_def launch_silent
       hasRunningChildren_def poll_silent wait_silent\<close>)

lemma perform_well_numbered:
  assumes "well_numbered s"
  shows "well_numbered (perform op s)"
proof (cases op)
  case TerminateAll
  then show ?thesis using assms
    by (auto simp: well_numbered_def terminateAll_def terminate_def)
qed (use assms in \<open>simp_all add: runProgram_def runCommand_def launch_well_numbered
       hasRunningChildren_def poll_well_numbered wait_well_numbered\<close>)

lemma perform_all_silent:
  assumes "silent n s"
  shows "silent n (perform_all ops s)"
  using assms unfolding perform_all_def
  by (induction ops arbitrary: s) (simp_all add: perform_silent)

lemma perform_all_well_numbered:
  assumes "well_numbered s"
  shows "well_numbered (perform_all ops s)"
  using assms unfolding perform_all_def
  by (induction ops arbitrary: s) (simp_all add: perform_well_numbered)

lemma well_numbered_new: "well_numbered new_supervisor"
  by (simp add: well_numbered_def new_supervisor_def)

lemma launch_failure:
  assumes "well_numbered s"
  shows "launch False what opts cbs s = (Inl LaunchError, s\<lparr>calls := Suc (calls s)\<rparr>)"
    and "silent (calls s) (snd (launch False what opts cbs s))"
  using assms by (auto simp: launch_def Let_def silent_def well_numbered_def)

text \<open>
  Claim C2. For every call of \<open>runProgram\<close> or \<open>runCommand\<close> in which the operating
  system fails to create the process, whatever the supervisor has been through before:
  the call returns a launch error, the registry is as it was (no handle is added), no
  callback is invoked by the call, and whatever operations follow, no callback is ever
  invoked for that call.
\<close>

theorem failed_launch_never_calls_back:
  assumes "s = perform_all before new_supervisor"
  shows
    "fst (runProgram False executable args opts cbs s) = Inl LaunchError \<and>
     registry (snd (runProgram False executable args opts cbs s)) = registry s \<and>
     invoked (snd (runProgram False executable args opts cbs s)) = invoked s \<and>
     calls s \<notin> fst ` set (invoked
       (perform_all after (snd (runProgram False executable args opts cbs s)))) \<and>
     fst (runCommand False command opts cbs s) = Inl LaunchError \<and>
     registry (snd (runCommand False command opts cbs s)) = registry s \<and>
     invoked (snd (runCommand False command opts cbs s)) = invoked s \<and>
     calls s \<notin> fst ` set (invoked
       (perform_all after (snd (runCommand False command opts cbs s))))"
proof -
  have wn: "well_numbered s"
    using assms perform_all_well_numbered [OF well_numbered_new] by simp
  have never: "calls s \<notin> fst ` set (invoked
       (perform_all after (snd (launch False what opts cbs s))))" for what
  proof -
    have "silent (calls s) (snd (launch False what opts cbs s))"
      using launch_failure(2) [OF wn] .
    then have "silent (calls s) (perform_all after (snd (launch False what opts cbs s)))"
      by (rule perform_all_silent)
    then show ?thesis by (simp add: silent_def)
  qed
  have now: "launch False what opts cbs s = (Inl LaunchError, s\<lparr>calls := Suc (calls s)\<rparr>)"
    for what
    using launch_failure(1) [OF wn] .
  show ?thesis
    using never [of executable] never [of command]
    by (simp add: runProgram_def runCommand_def now)
qed

text \<open>
  The theorem at work: a program is launched, a second launch fails, and two polls
  follow. Every callback invoked belongs to the first call (number 0), none to the
  failed one (number 1).
\<close>

theorem failed_launch_never_calls_back_witness:
  "invoked (perform_all
      [RunProgram True ''/bin/echo'' [''hello''] default_ProcessOptions every_callback,
       RunProgram False ''/no/such'' [] default_ProcessOptions every_callback,
       Poll [quiet], Poll [says_hello_and_exits]] new_supervisor)
     = [(0, OnStarted), (0, OnStdout ''hello''), (0, OnContinue), (0, OnExit 0)] \<and>
   calls (perform_all
      [RunProgram True ''/bin/echo'' [''hello''] default_ProcessOptions every_callback]
      new_supervisor) = 1 \<and>
   fst (runProgram False ''/no/such'' [] default_ProcessOptions every_callback
      (perform_all
        [RunProgram True ''/bin/echo'' [''hello''] default_ProcessOptions every_callback]
        new_supervisor)) = Inl LaunchError \<and>
   1 \<notin> fst ` set (invoked (perform_all [Poll [quiet], Poll [says_hello_and_exits]]
      (snd (runProgram False ''/no/such'' [] default_ProcessOptions every_callback
        (perform_all
          [RunProgram True ''/bin/echo'' [''hello''] default_ProcessOptions every_callback]
          new_supervisor)))))"
proof -
  let ?before = "[RunProgram True ''/bin/echo'' [''hello''] default_ProcessOptions every_callback]"
  let ?s = "perform_all ?before new_supervisor"
  have c: "calls ?s = 1"
    by (simp add: perform_all_def runProgram_def launch_def new_supervisor_def)
  have t: "invoked (perform_all
      [RunProgram True ''/bin/echo'' [''hello''] default_ProcessOptions every_callback,
       RunProgram False ''/no/such'' [] default_ProcessOptions every_callback,
       Poll [quiet], Poll [says_hello_and_exits]] new_supervisor)
     = [(0, OnStarted), (0, OnStdout ''hello''), (0, OnContinue), (0, OnExit 0)]"
    by (simp add: perform_all_def runProgram_def launch_def new_supervisor_def poll_def
        poll_handle_def read_streams_def continue_step_def check_exit_def deliver_def
        fire_def quiet_def says_hello_and_exits_def every_callback_def
        default_ProcessOptions_def)
  note th = failed_launch_never_calls_back
    [of ?s ?before "''/no/such''" "[]" default_ProcessOptions every_callback
      "[Poll [quiet], Poll [says_hello_and_exits]]", OF refl]
  show ?thesis using th t c by simp
qed

end
